theory Spec2Isabelle
  imports Main
begin

section \<open>Python strings and paths\<close>

text \<open>
  A Python \<open>str\<close> is a \<open>string\<close>. Both \<open>str.split("/")\<close> and
  \<open>re.split(r"[/.]", s)\<close> cut the string at every separator character and keep every
  piece, empty ones included: a string with \<open>n\<close> separators gives \<open>n + 1\<close>
  pieces. \<open>split_acc\<close> is that scan; \<open>cur\<close> is the piece being read.
  The separators are ASCII characters, so cutting the UTF-8 bytes of a path gives the
  pieces of the path itself.
\<close>

fun split_acc :: "(char \<Rightarrow> bool) \<Rightarrow> string \<Rightarrow> string \<Rightarrow> string list" where
  "split_acc sep cur [] = [cur]"
| "split_acc sep cur (c # cs) =
     (if sep c then cur # split_acc sep [] cs else split_acc sep (cur @ [c]) cs)"

definition str_split :: "char \<Rightarrow> string \<Rightarrow> string list" where
  "str_split d s = split_acc (\<lambda>c. c = d) [] s"

text \<open>The character class \<open>[/.]\<close> of the token pattern.\<close>

definition is_separator :: "char \<Rightarrow> bool" where
  "is_separator c \<longleftrightarrow> c = CHR ''/'' \<or> c = CHR ''.''"

definition re_split_slash_dot :: "string \<Rightarrow> string list" where
  "re_split_slash_dot s = split_acc is_separator [] s"

section \<open>Path Similarity Scorer\<close>

text \<open>
  The first argument of \<open>calculate_minimal_distance\<close> is \<open>None\<close>, one path, or a list
  of entries that carry a path under the key \<open>filename\<close>.
\<close>

record changed_file_entry =
  filename :: string

datatype changed_files_arg =
  NoPath
  | OnePath string
  | PathEntries "changed_file_entry list"

text \<open>
  The inner loop of \<open>calculate_minimal_distance\<close>:
  \<^verbatim>\<open>for i in range(n): if test[i] == changed[i]: distance -= 2 else: break\<close>.
  The bound \<open>n\<close> is below both lengths, so every index read is in range.
\<close>

function scan_prefix :: "string list \<Rightarrow> string list \<Rightarrow> nat \<Rightarrow> nat \<Rightarrow> int \<Rightarrow> int" where
  "scan_prefix test_splits changed_splits n i distance =
     (if i < n then
        (if test_splits ! i = changed_splits ! i
         then scan_prefix test_splits changed_splits n (i + 1) (distance - 2)
         else distance)
      else distance)"
  by pat_completeness auto
termination
  by (relation "measure (\<lambda>(ts, cs, n, i, d). n - i)") auto

declare scan_prefix.simps [simp del]

text \<open>The body of the outer loop for one entry: the distance of one changed path.\<close>

definition entry_distance :: "string list \<Rightarrow> changed_file_entry \<Rightarrow> int" where
  "entry_distance test_file_path_splits changed_file_entry =
     (let current_changed_file_path = filename changed_file_entry;
          changed_file_path_splits = str_split CHR ''/'' current_changed_file_path;
          distance = int (length changed_file_path_splits) + int (length test_file_path_splits)
      in scan_prefix test_file_path_splits changed_file_path_splits
           (min (length changed_file_path_splits - 1) (length test_file_path_splits - 1))
           0 distance)"

definition min_over_entries :: "string list \<Rightarrow> changed_file_entry list \<Rightarrow> int" where
  "min_over_entries test_file_path_splits changed_files =
     foldl (\<lambda>min_distance e. min min_distance (entry_distance test_file_path_splits e))
       1000 changed_files"

text \<open>
  \<open>not x\<close> holds of \<open>None\<close>, of the empty string and of the empty list; these are the
  inputs that return the sentinel 1000.
\<close>

fun calculate_minimal_distance :: "changed_files_arg \<Rightarrow> string option \<Rightarrow> int" where
  "calculate_minimal_distance NoPath test_file_path = 1000"
| "calculate_minimal_distance changed_file_path None = 1000"
| "calculate_minimal_distance (OnePath p) (Some t) =
     (if p = [] \<or> t = [] then 1000
      else min_over_entries (str_split CHR ''/'' t) [\<lparr>filename = p\<rparr>])"
| "calculate_minimal_distance (PathEntries es) (Some t) =
     (if es = [] \<or> t = [] then 1000
      else min_over_entries (str_split CHR ''/'' t) es)"

fun calculate_common_tokens :: "string option \<Rightarrow> string option \<Rightarrow> nat" where
  "calculate_common_tokens None test_file_path = 0"
| "calculate_common_tokens changed_file_path None = 0"
| "calculate_common_tokens (Some c) (Some t) =
     (if c = [] \<or> t = [] then 0
      else let changed_tokens = set (filter (\<lambda>token. token \<noteq> []) (re_split_slash_dot c));
               test_tokens = set (filter (\<lambda>token. token \<noteq> []) (re_split_slash_dot t))
           in card (changed_tokens \<inter> test_tokens))"

text \<open>
  The distance as the specification words it: the two component counts, minus 2 for each
  pair of equal components at the start of the two paths, the last component of either
  path left out of the comparison.
\<close>

definition matching_prefix :: "string list \<Rightarrow> string list \<Rightarrow> nat" where
  "matching_prefix parts_a parts_b =
     length (takeWhile (\<lambda>(x, y). x = y) (zip (butlast parts_a) (butlast parts_b)))"

definition directory_distance_spec :: "string \<Rightarrow> string \<Rightarrow> int" where
  "directory_distance_spec a b =
     (let parts_a = str_split CHR ''/'' a; parts_b = str_split CHR ''/'' b
      in int (length parts_a) + int (length parts_b)
           - 2 * int (matching_prefix parts_a parts_b))"

text \<open>
  The token set of a path as the specification words it: a token is a non-empty stretch
  of the path without \<open>/\<close> and \<open>.\<close> that reaches, on each side, the end of the path
  or one of these two characters.
\<close>

definition path_tokens_spec :: "string \<Rightarrow> string set" where
  "path_tokens_spec s =
     {t. t \<noteq> [] \<and> (\<forall>c \<in> set t. \<not> is_separator c) \<and>
         (\<exists>before after. s = before @ t @ after
            \<and> (before = [] \<or> is_separator (last before))
            \<and> (after = [] \<or> is_separator (hd after)))}"

text \<open>The pieces of a string that start right after a separator.\<close>

definition pieces_after :: "(char \<Rightarrow> bool) \<Rightarrow> string \<Rightarrow> string set" where
  "pieces_after sep s =
     {t. (\<forall>c \<in> set t. \<not> sep c) \<and>
         (\<exists>before after. s = before @ t @ after \<and> before \<noteq> [] \<and> sep (last before)
            \<and> (after = [] \<or> sep (hd after)))}"

section \<open>Feature Synthesizer\<close>

text \<open>
  A \<open>datetime\<close> is a point on the time line, counted in microseconds (the resolution
  of Python's \<open>datetime\<close> and of a database timestamp); \<open>timedelta(days=n)\<close> is
  \<open>n\<close> days of microseconds. The time line of the model has no ends: Python's
  \<open>datetime\<close> stops at the years 1 and 9999, and a subtraction that would leave
  this range raises there.
\<close>

type_synonym datetime = int

definition timedelta_days :: "int \<Rightarrow> int" where
  "timedelta_days n = n * 86400000000"

record test_run =
  test_case_file_path :: string
  test_case_name :: string
  actual_result :: string

text \<open>The dictionary \<open>data\<close> of \<open>process_test_run\<close>, one field for each key.\<close>

record test_features =
  tf_test_case_file_path :: string
  tf_test_case_name :: string
  tf_actual_result :: int
  failures_7_days :: int
  failures_14_days :: int
  failures_28_days :: int

definition count_failure :: "datetime \<Rightarrow> test_features \<Rightarrow> datetime \<Rightarrow> test_features" where
  "count_failure pr_creation_date data failed_date =
     (let data = (if failed_date > pr_creation_date - timedelta_days 7
                  then data\<lparr>failures_7_days := failures_7_days data + 1\<rparr> else data);
          data = (if failed_date > pr_creation_date - timedelta_days 14
                  then data\<lparr>failures_14_days := failures_14_days data + 1\<rparr> else data);
          data = (if failed_date > pr_creation_date - timedelta_days 28
                  then data\<lparr>failures_28_days := failures_28_days data + 1\<rparr> else data)
      in data)"

definition process_test_run :: "test_run \<Rightarrow> datetime \<Rightarrow> datetime list \<Rightarrow> test_features" where
  "process_test_run test_run pr_creation_date failed_run_dates =
     foldl (count_failure pr_creation_date)
       \<lparr>tf_test_case_file_path = test_case_file_path test_run,
        tf_test_case_name = test_case_name test_run,
        tf_actual_result = (if actual_result test_run = ''passed'' then 0 else 1),
        failures_7_days = 0,
        failures_14_days = 0,
        failures_28_days = 0\<rparr>
       failed_run_dates"

text \<open>
  \<open>os.path.splitext\<close> of the standard library (POSIX paths): the extension starts at
  the last dot of the last path component, unless that component has only dots before it.
  \<open>rfind\<close> is \<open>str.rfind\<close>: the highest index of the character, or \<open>-1\<close>.
\<close>

fun rfind_acc :: "char \<Rightarrow> string \<Rightarrow> int \<Rightarrow> int \<Rightarrow> int" where
  "rfind_acc c [] i found = found"
| "rfind_acc c (x # xs) i found = rfind_acc c xs (i + 1) (if x = c then i else found)"

definition rfind :: "char \<Rightarrow> string \<Rightarrow> int" where
  "rfind c s = rfind_acc c s 0 (- 1)"

function splitext_loop :: "string \<Rightarrow> nat \<Rightarrow> nat \<Rightarrow> (string \<times> string) option" where
  "splitext_loop p filenameIndex dotIndex =
     (if filenameIndex < dotIndex then
        (if p ! filenameIndex \<noteq> CHR ''.'' then Some (take dotIndex p, drop dotIndex p)
         else splitext_loop p (filenameIndex + 1) dotIndex)
      else None)"
  by pat_completeness auto
termination
  by (relation "measure (\<lambda>(p, filenameIndex, dotIndex). dotIndex - filenameIndex)") auto

declare splitext_loop.simps [simp del]

definition splitext :: "string \<Rightarrow> string \<times> string" where
  "splitext p =
     (let sepIndex = rfind CHR ''/'' p; dotIndex = rfind CHR ''.'' p
      in if dotIndex > sepIndex then
           (case splitext_loop p (nat (sepIndex + 1)) (nat dotIndex) of
              Some r \<Rightarrow> r
            | None \<Rightarrow> (p, []))
         else (p, []))"

record file_features =
  file_name :: string
  file_extension :: string
  changes_3_days :: int
  changes_14_days :: int

definition count_change :: "datetime \<Rightarrow> file_features \<Rightarrow> datetime \<Rightarrow> file_features" where
  "count_change pr_creation_date data change_date =
     (let data = (if change_date \<ge> pr_creation_date - timedelta_days 3
                  then data\<lparr>changes_3_days := changes_3_days data + 1\<rparr> else data);
          data = (if change_date \<ge> pr_creation_date - timedelta_days 14
                  then data\<lparr>changes_14_days := changes_14_days data + 1\<rparr> else data)
      in data)"

definition process_file_change :: "string \<Rightarrow> datetime \<Rightarrow> datetime list \<Rightarrow> file_features" where
  "process_file_change file_change_path pr_creation_date file_change_dates =
     (case splitext file_change_path of
        (name, extension) \<Rightarrow>
          foldl (count_change pr_creation_date)
            \<lparr>file_name = name,
             file_extension = (if extension \<noteq> [] then drop 1 extension else []),
             changes_3_days = 0,
             changes_14_days = 0\<rparr>
            file_change_dates)"

section \<open>Storage\<close>

text \<open>
  The tables the pipeline reads, each a list of rows with the columns the queries select.
  A query without \<open>ORDER BY\<close> is modelled as returning its rows in table order.
  Every column holds a value, except \<open>list_of_authors\<close>, which may be \<open>NULL\<close>.
\<close>

record pr_details_row =
  pr_link :: string
  repo_name :: string
  date_of_pr :: datetime
  list_of_authors :: "string list option"

record files_changed_row =
  fc_pr_link :: string
  files_paths_changed :: string

record test_runs_row =
  tr_pr_link :: string
  tr_test_case_file_path :: string
  tr_test_case_name :: string
  tr_actual_result :: string

record checkpoint_row =
  cp_repo_name :: string
  date_of_checkpoint :: datetime

record database =
  repositories :: "string list"
  checkpoint_details :: "checkpoint_row list"
  repo_pr_details :: "pr_details_row list"
  pr_to_files_changed_mapping :: "files_changed_row list"
  pr_to_test_runs_mapping :: "test_runs_row list"

section \<open>Checkpoint Resolver\<close>

text \<open>
  \<open>SELECT MAX(date_of_checkpoint) ... WHERE repo_name = %s\<close> in \<open>main\<close>: the maximum
  is \<open>NULL\<close>, hence \<open>None\<close>, when the repository has no checkpoint row.
\<close>

definition latest_checkpoint :: "database \<Rightarrow> string \<Rightarrow> datetime option" where
  "latest_checkpoint db repo =
     (let dates = map date_of_checkpoint
                    (filter (\<lambda>r. cp_repo_name r = repo) (checkpoint_details db))
      in if dates = [] then None else Some (Max (set dates)))"

text \<open>The first query of \<open>process_data_for_repo\<close>, bounded when a checkpoint is given.\<close>

definition fetch_pull_requests :: "database \<Rightarrow> string \<Rightarrow> datetime option \<Rightarrow> pr_details_row list" where
  "fetch_pull_requests db repo checkpoint_date =
     (case checkpoint_date of
        Some checkpoint \<Rightarrow>
          (let start_date = checkpoint - timedelta_days 28
           in filter (\<lambda>pr. repo_name pr = repo \<and> date_of_pr pr \<ge> start_date)
                (repo_pr_details db))
      | None \<Rightarrow> filter (\<lambda>pr. repo_name pr = repo) (repo_pr_details db))"

section \<open>History Aggregator\<close>

type_synonym history = "string \<rightharpoonup> datetime list"

text \<open>\<open>next((pr["date_of_pr"] for pr in pull_request_details if ...), None)\<close>\<close>

definition date_of_link :: "pr_details_row list \<Rightarrow> string \<Rightarrow> datetime option" where
  "date_of_link pull_request_details link =
     map_option date_of_pr (find (\<lambda>pr. pr_link pr = link) pull_request_details)"

text \<open>\<open>history.get(key, [])\<close>\<close>

definition get_or_empty :: "history \<Rightarrow> string \<Rightarrow> datetime list" where
  "get_or_empty h k = (case h k of None \<Rightarrow> [] | Some dates \<Rightarrow> dates)"

definition add_file_change :: "pr_details_row list \<Rightarrow> history \<Rightarrow> files_changed_row \<Rightarrow> history" where
  "add_file_change pull_request_details files_changed_history row =
     (let key = files_paths_changed row;
          h = (case files_changed_history key of
                 None \<Rightarrow> files_changed_history(key \<mapsto> [])
               | Some _ \<Rightarrow> files_changed_history)
      in case date_of_link pull_request_details (fc_pr_link row) of
           None \<Rightarrow> h
         | Some changed_date \<Rightarrow> h(key \<mapsto> get_or_empty h key @ [changed_date]))"

definition get_test_run_key :: "string \<Rightarrow> string \<Rightarrow> string" where
  "get_test_run_key path name = path @ ''::::'' @ name"

definition add_test_run :: "pr_details_row list \<Rightarrow> history \<Rightarrow> test_runs_row \<Rightarrow> history" where
  "add_test_run pull_request_details test_runs_failure_history row =
     (let key = get_test_run_key (tr_test_case_file_path row) (tr_test_case_name row);
          h = (case test_runs_failure_history key of
                 None \<Rightarrow> test_runs_failure_history(key \<mapsto> [])
               | Some _ \<Rightarrow> test_runs_failure_history)
      in if tr_actual_result row = ''failed'' then
           (case date_of_link pull_request_details (tr_pr_link row) of
              None \<Rightarrow> h
            | Some changed_date \<Rightarrow> h(key \<mapsto> get_or_empty h key @ [changed_date]))
         else h)"

section \<open>Pair Expander and Dataset Assembler\<close>

text \<open>
  A feature row is a Python dictionary whose key order matters (it gives the columns of
  the file): an association list in insertion order. Storing under a key that is present
  replaces the value in place; a new key goes to the end.
\<close>

datatype pyval = PyStr string | PyInt int

type_synonym pydict = "(string \<times> pyval) list"

fun dict_set :: "pydict \<Rightarrow> string \<Rightarrow> pyval \<Rightarrow> pydict" where
  "dict_set [] k v = [(k, v)]"
| "dict_set ((k', v') # d) k v =
     (if k' = k then (k, v) # d else (k', v') # dict_set d k v)"

definition dict_update :: "pydict \<Rightarrow> pydict \<Rightarrow> pydict" where
  "dict_update d items = foldl (\<lambda>d (k, v). dict_set d k v) d items"

definition test_features_items :: "test_features \<Rightarrow> pydict" where
  "test_features_items data =
     [(''test_case_file_path'', PyStr (tf_test_case_file_path data)),
      (''test_case_name'', PyStr (tf_test_case_name data)),
      (''actual_result'', PyInt (tf_actual_result data)),
      (''failures_7_days'', PyInt (failures_7_days data)),
      (''failures_14_days'', PyInt (failures_14_days data)),
      (''failures_28_days'', PyInt (failures_28_days data))]"

definition file_features_items :: "file_features \<Rightarrow> pydict" where
  "file_features_items data =
     [(''file_name'', PyStr (file_name data)),
      (''file_extension'', PyStr (file_extension data)),
      (''changes_3_days'', PyInt (changes_3_days data)),
      (''changes_14_days'', PyInt (changes_14_days data))]"

text \<open>
  The dictionary appended for one pair. \<open>strftime\<close> stands for
  \<open>pr_creation_date.strftime("%Y-%m-%d %H:%M:%S")\<close>.
\<close>

definition feature_row ::
  "(datetime \<Rightarrow> string) \<Rightarrow> pr_details_row \<Rightarrow> int \<Rightarrow> int \<Rightarrow> test_features \<Rightarrow> file_features \<Rightarrow> pydict" where
  "feature_row strftime pr distinct_author_count num_files_changed test_run file_change =
     dict_update
       (dict_update (dict_update [] (test_features_items test_run))
          (file_features_items file_change))
       [(''distinct_author'', PyInt distinct_author_count),
        (''common_tokens'',
           PyInt (int (calculate_common_tokens
                  (Some (tf_test_case_file_path test_run)) (Some (file_name file_change))))),
        (''minimal_distance'',
           PyInt (calculate_minimal_distance
                  (OnePath (tf_test_case_file_path test_run)) (Some (file_name file_change)))),
        (''num_files_changed'', PyInt num_files_changed),
        (''date_of_pr'', PyStr (strftime (date_of_pr pr))),
        (''pr_link'', PyStr (pr_link pr))]"

text \<open>The body of the loop over the pull requests: the rows of one pull request.\<close>

definition pr_feature_rows ::
  "(datetime \<Rightarrow> string) \<Rightarrow> files_changed_row list \<Rightarrow> test_runs_row list \<Rightarrow>
     history \<Rightarrow> history \<Rightarrow> pr_details_row \<Rightarrow> pydict list" where
  "pr_feature_rows strftime pr_files_changed_data pr_test_runs_data
       files_changed_history test_runs_failure_history pr =
     (let pr_creation_date = date_of_pr pr;
          distinct_author_count =
            (case list_of_authors pr of
               None \<Rightarrow> 0
             | Some authors \<Rightarrow> if authors = [] then 0 else int (length authors));
          pr_files_changed =
            map files_paths_changed
              (filter (\<lambda>row. fc_pr_link row = pr_link pr) pr_files_changed_data);
          num_files_changed = int (length pr_files_changed);
          pr_test_runs =
            map (\<lambda>row. \<lparr>test_case_file_path = tr_test_case_file_path row,
                        test_case_name = tr_test_case_name row,
                        actual_result = tr_actual_result row\<rparr>)
              (filter (\<lambda>row. tr_pr_link row = pr_link pr) pr_test_runs_data);
          processed_test_runs =
            map (\<lambda>test_run. process_test_run test_run pr_creation_date
                   (get_or_empty test_runs_failure_history
                      (get_test_run_key (test_case_file_path test_run)
                         (test_case_name test_run))))
              pr_test_runs;
          processed_file_changes =
            map (\<lambda>file_change. process_file_change file_change pr_creation_date
                   (get_or_empty files_changed_history file_change))
              pr_files_changed
      in map (\<lambda>(test_run, file_change).
                feature_row strftime pr distinct_author_count num_files_changed
                  test_run file_change)
           (List.product processed_test_runs processed_file_changes))"

text \<open>
  One processing pass. Its effects are the file it writes, if any (name, header and rows),
  and the value it returns. \<open>timestamp\<close> is \<open>datetime.now()\<close> formatted for the file
  name.
\<close>

record csv_file =
  fieldnames :: "string list"
  csv_rows :: "pydict list"

record pass_result =
  written :: "(string \<times> csv_file) option"
  returned :: "string option"

definition fetch_files_changed :: "database \<Rightarrow> string list \<Rightarrow> files_changed_row list" where
  "fetch_files_changed db pull_request_links =
     filter (\<lambda>row. fc_pr_link row \<in> set pull_request_links) (pr_to_files_changed_mapping db)"

definition fetch_test_runs :: "database \<Rightarrow> string list \<Rightarrow> test_runs_row list" where
  "fetch_test_runs db pull_request_links =
     filter (\<lambda>row. tr_pr_link row \<in> set pull_request_links) (pr_to_test_runs_mapping db)"

definition collect_feature_data ::
  "(datetime \<Rightarrow> string) \<Rightarrow> database \<Rightarrow> pr_details_row list \<Rightarrow> pydict list" where
  "collect_feature_data strftime db pull_request_details =
     (let pull_request_links = map pr_link pull_request_details;
          pr_files_changed_data = fetch_files_changed db pull_request_links;
          files_changed_history =
            foldl (add_file_change pull_request_details) Map.empty pr_files_changed_data;
          pr_test_runs_data = fetch_test_runs db pull_request_links;
          test_runs_failure_history =
            foldl (add_test_run pull_request_details) Map.empty pr_test_runs_data
      in concat (map (pr_feature_rows strftime pr_files_changed_data pr_test_runs_data
                        files_changed_history test_runs_failure_history)
                   pull_request_details))"

definition process_data_for_repo ::
  "(datetime \<Rightarrow> string) \<Rightarrow> string \<Rightarrow> database \<Rightarrow> string \<Rightarrow> datetime option \<Rightarrow> pass_result" where
  "process_data_for_repo strftime timestamp db repo checkpoint_date =
     (let pull_request_details = fetch_pull_requests db repo checkpoint_date
      in if pull_request_details = [] then \<lparr>written = None, returned = None\<rparr>
         else
           (let feature_data = collect_feature_data strftime db pull_request_details;
                output_file = ''csv/'' @ repo @ ''_'' @ timestamp @ ''.csv''
            in \<lparr>written =
                   (case feature_data of
                      [] \<Rightarrow> None
                    | first # _ \<Rightarrow>
                        Some (output_file,
                              \<lparr>fieldnames = map fst first, csv_rows = feature_data\<rparr>)),
                 returned = Some output_file\<rparr>))"

text \<open>
  \<open>main\<close>, for each repository: the pass, and whether \<open>train_model\<close> is called
  (\<open>if processed_data_path:\<close> holds of a string that is not empty).
\<close>

record repo_outcome =
  outcome_repo :: string
  outcome_pass :: pass_result
  trainer_invoked :: bool

definition main_repo :: "(datetime \<Rightarrow> string) \<Rightarrow> string \<Rightarrow> database \<Rightarrow> string \<Rightarrow> repo_outcome" where
  "main_repo strftime timestamp db repo =
     (let latest = latest_checkpoint db repo;
          result = process_data_for_repo strftime timestamp db repo latest
      in \<lparr>outcome_repo = repo,
          outcome_pass = result,
          trainer_invoked =
            (case returned result of None \<Rightarrow> False | Some path \<Rightarrow> path \<noteq> [])\<rparr>)"

definition main :: "(datetime \<Rightarrow> string) \<Rightarrow> (string \<Rightarrow> string) \<Rightarrow> database \<Rightarrow> repo_outcome list" where
  "main strftime timestamp_at db =
     map (\<lambda>repo. main_repo strftime (timestamp_at repo) db repo) (repositories db)"

section \<open>Vocabulary of the specification\<close>

text \<open>
  The test runs and the file changes that belong to a pull request, among all rows of
  the two tables: the \<open>M\<close> and \<open>N\<close> of the cross product.
\<close>

definition test_runs_of :: "database \<Rightarrow> pr_details_row \<Rightarrow> test_runs_row list" where
  "test_runs_of db pr = filter (\<lambda>row. tr_pr_link row = pr_link pr) (pr_to_test_runs_mapping db)"

definition file_changes_of :: "database \<Rightarrow> pr_details_row \<Rightarrow> files_changed_row list" where
  "file_changes_of db pr =
     filter (\<lambda>row. fc_pr_link row = pr_link pr) (pr_to_files_changed_mapping db)"

text \<open>The columns of the dataset file, in the order the specification lists them.\<close>

definition dataset_columns :: "string list" where
  "dataset_columns =
     [''test_case_file_path'', ''test_case_name'', ''actual_result'', ''failures_7_days'',
      ''failures_14_days'', ''failures_28_days'', ''file_name'', ''file_extension'',
      ''changes_3_days'', ''changes_14_days'', ''distinct_author'', ''common_tokens'',
      ''minimal_distance'', ''num_files_changed'', ''date_of_pr'', ''pr_link'']"

text \<open>The checkpoint dates recorded for a repository.\<close>

definition checkpoint_dates :: "database \<Rightarrow> string \<Rightarrow> datetime set" where
  "checkpoint_dates db repo =
     date_of_checkpoint ` {c \<in> set (checkpoint_details db). cp_repo_name c = repo}"

section \<open>A fixture\<close>

text \<open>
  One repository with one pull request that has 2 test runs and 3 file changes, and an
  older pull request outside the window of the repository's checkpoints.
\<close>

definition fixture_pr :: pr_details_row where
  "fixture_pr =
     \<lparr>pr_link = ''pr/2'', repo_name = ''repo'', date_of_pr = timedelta_days 100,
      list_of_authors = Some [''ann'', ''bob'']\<rparr>"

definition fixture_old_pr :: pr_details_row where
  "fixture_old_pr =
     \<lparr>pr_link = ''pr/1'', repo_name = ''repo'', date_of_pr = timedelta_days 71,
      list_of_authors = None\<rparr>"

definition fixture_db :: database where
  "fixture_db =
     \<lparr>repositories = [''repo''],
      checkpoint_details =
        [\<lparr>cp_repo_name = ''repo'', date_of_checkpoint = timedelta_days 90\<rparr>,
         \<lparr>cp_repo_name = ''repo'', date_of_checkpoint = timedelta_days 100\<rparr>,
         \<lparr>cp_repo_name = ''other'', date_of_checkpoint = timedelta_days 120\<rparr>],
      repo_pr_details = [fixture_old_pr, fixture_pr],
      pr_to_files_changed_mapping =
        [\<lparr>fc_pr_link = ''pr/2'', files_paths_changed = ''a/b/c.py''\<rparr>,
         \<lparr>fc_pr_link = ''pr/2'', files_paths_changed = ''a/x.py''\<rparr>,
         \<lparr>fc_pr_link = ''pr/2'', files_paths_changed = ''README''\<rparr>],
      pr_to_test_runs_mapping =
        [\<lparr>tr_pr_link = ''pr/2'', tr_test_case_file_path = ''a/b/test_c.py'',
          tr_test_case_name = ''test_one'', tr_actual_result = ''passed''\<rparr>,
         \<lparr>tr_pr_link = ''pr/2'', tr_test_case_file_path = ''a/b/test_c.py'',
          tr_test_case_name = ''test_two'', tr_actual_result = ''failed''\<rparr>]\<rparr>"

definition fixture_strftime :: "datetime \<Rightarrow> string" where
  "fixture_strftime d = ''1970-04-11 00:00:00''"

text \<open>The same repository with no test run recorded.\<close>

definition fixture_db_no_tests :: database where
  "fixture_db_no_tests = fixture_db\<lparr>pr_to_test_runs_mapping := []\<rparr>"

section \<open>Properties of the Path Similarity Scorer\<close>

lemma length_split_acc: "length (split_acc sep cur s) = Suc (length (filter sep s))"
  by (induction s arbitrary: cur) auto

lemma length_str_split: "length (str_split d s) = Suc (length (filter (\<lambda>c. c = d) s))"
  by (simp add: str_split_def length_split_acc)

lemma scan_prefix_takeWhile:
  "n \<le> length ts \<Longrightarrow> n \<le> length cs \<Longrightarrow>
   scan_prefix ts cs n i d =
     d - 2 * int (length (takeWhile (\<lambda>(x, y). x = y) (drop i (take n (zip ts cs)))))"
proof (induction ts cs n i d rule: scan_prefix.induct)
  case (1 ts cs n i d)
  show ?case
  proof (cases "i < n")
    case False
    then show ?thesis by (subst scan_prefix.simps) simp
  next
    case True
    with "1.prems" have len: "i < length (take n (zip ts cs))" by simp
    have step: "drop i (take n (zip ts cs)) = (ts ! i, cs ! i) # drop (Suc i) (take n (zip ts cs))"
      using Cons_nth_drop_Suc [OF len] True "1.prems" by simp
    show ?thesis
    proof (cases "ts ! i = cs ! i")
      case eq: True
      from "1.IH" [OF True eq "1.prems"] True eq show ?thesis
        by (subst scan_prefix.simps) (simp add: step)
    next
      case neq: False
      with True show ?thesis
        by (subst scan_prefix.simps) (simp add: step)
    qed
  qed
qed

lemma zip_take_take: "zip (take n xs) (take m ys) = take (min n m) (zip xs ys)"
proof (induction xs arbitrary: n m ys)
  case Nil
  then show ?case by simp
next
  case (Cons x xs)
  show ?case
  proof (cases ys)
    case Nil
    then show ?thesis by simp
  next
    case (Cons y ys')
    then show ?thesis using Cons.IH
      by (cases n; cases m) simp_all
  qed
qed

lemma zip_butlast:
  "zip (butlast xs) (butlast ys) = take (min (length xs - 1) (length ys - 1)) (zip xs ys)"
  by (simp add: butlast_conv_take zip_take_take)

lemma scan_prefix_matching:
  "scan_prefix ts cs (min (length cs - 1) (length ts - 1)) 0 d =
     d - 2 * int (matching_prefix ts cs)"
  by (subst scan_prefix_takeWhile) (simp_all add: matching_prefix_def zip_butlast min.commute)

lemma takeWhile_zip_swap:
  "length (takeWhile (\<lambda>(x, y). x = y) (zip xs ys)) =
   length (takeWhile (\<lambda>(x, y). x = y) (zip ys xs))"
proof (induction xs arbitrary: ys)
  case Nil
  then show ?case by simp
next
  case (Cons x xs)
  then show ?case by (cases ys) auto
qed

lemma matching_prefix_commute: "matching_prefix pa pb = matching_prefix pb pa"
  unfolding matching_prefix_def by (rule takeWhile_zip_swap)

lemma entry_distance_spec:
  "entry_distance (str_split CHR ''/'' t) e = directory_distance_spec (filename e) t"
  unfolding entry_distance_def directory_distance_spec_def Let_def scan_prefix_matching
  by (simp add: matching_prefix_commute [of "str_split CHR ''/'' t"])

lemma foldl_min_Min:
  "foldl (\<lambda>m e. min m (f e)) (a::int) es = Min (insert a (f ` set es))"
proof (induction es arbitrary: a)
  case Nil
  then show ?case by simp
next
  case (Cons e es)
  have "Min (insert (min a (f e)) (f ` set es)) = Min (insert a (insert (f e) (f ` set es)))"
    by (cases "set es = {}") (simp_all add: min.assoc)
  with Cons show ?case by simp
qed

lemma min_over_entries_Min:
  "min_over_entries (str_split CHR ''/'' t) es =
     Min (insert 1000 ((\<lambda>e. directory_distance_spec (filename e) t) ` set es))"
  by (simp add: min_over_entries_def entry_distance_spec foldl_min_Min)

lemma directory_distance_lower: "2 \<le> directory_distance_spec a b"
proof -
  let ?pa = "str_split CHR ''/'' a" and ?pb = "str_split CHR ''/'' b"
  have "matching_prefix ?pa ?pb \<le> length (zip (butlast ?pa) (butlast ?pb))"
    unfolding matching_prefix_def by (rule length_takeWhile_le)
  then have "matching_prefix ?pa ?pb \<le> min (length ?pa - 1) (length ?pb - 1)" by simp
  moreover have "0 < length ?pa" "0 < length ?pb" by (simp_all add: length_str_split)
  ultimately have "int (matching_prefix ?pa ?pb) + 1 \<le> int (length ?pa)"
    and "int (matching_prefix ?pa ?pb) + 1 \<le> int (length ?pb)" by linarith+
  then show ?thesis by (simp add: directory_distance_spec_def Let_def)
qed


subsection \<open>Directory distance\<close>

text \<open>
  Claim C6, as stated, fails on long paths. The result starts from the sentinel 1000 and
  only ever takes a minimum with it, so a distance above 1000 is returned as 1000: for the
  one-component path \<open>x\<close> against a path of 1000 slashes (1001 empty components) the
  component sum is 1002 with no prefix credit, and the function returns 1000.
\<close>

theorem directory_distance_uncapped_counterexample:
  "calculate_minimal_distance (OnePath ''x'') (Some (replicate 1000 CHR ''/'')) = 1000
   \<and> directory_distance_spec ''x'' (replicate 1000 CHR ''/'') = 1002"
proof -
  have parts_x: "str_split CHR ''/'' ''x'' = [''x'']"
    by (simp add: str_split_def)
  have "length (str_split CHR ''/'' (replicate 1000 CHR ''/'')) = 1001"
    by (simp add: length_str_split)
  then have spec: "directory_distance_spec ''x'' (replicate 1000 CHR ''/'') = 1002"
    by (simp add: directory_distance_spec_def Let_def parts_x matching_prefix_def)
  have "replicate 1000 CHR ''/'' \<noteq> []" by simp
  then have "calculate_minimal_distance (OnePath ''x'') (Some (replicate 1000 CHR ''/''))
      = min 1000 (directory_distance_spec ''x'' (replicate 1000 CHR ''/''))"
    by (simp add: min_over_entries_Min)
  with spec show ?thesis by simp
qed

text \<open>
  Claim C6, amended. \<open>calculate_minimal_distance\<close> returns 1000 when either input is
  empty or absent. For two non-empty path strings it returns the smaller of 1000 and
  the number of components of the one plus the number of components of the other, minus
  2 for each pair of equal components at the same index from the start, the comparison
  stopping at the first mismatch and never reaching the last component of either path.
  For a non-empty collection of entries it returns the smallest such distance over the
  entries, again at most 1000. The distance of \<open>a/b/c.py\<close> and \<open>a/b/test_c.py\<close> is
  2, and so is that of \<open>a\<close> and \<open>a\<close>.
\<close>

theorem directory_distance_capped:
  assumes "a \<noteq> []" and "b \<noteq> []" and "es \<noteq> []"
  shows "calculate_minimal_distance NoPath t = 1000
    \<and> calculate_minimal_distance c None = 1000
    \<and> calculate_minimal_distance (OnePath []) t = 1000
    \<and> calculate_minimal_distance (PathEntries []) t = 1000
    \<and> calculate_minimal_distance c (Some []) = 1000
    \<and> calculate_minimal_distance (OnePath a) (Some b) = min 1000 (directory_distance_spec a b)
    \<and> calculate_minimal_distance (PathEntries es) (Some b)
        = Min (insert 1000 ((\<lambda>e. directory_distance_spec (filename e) b) ` set es))
    \<and> calculate_minimal_distance (OnePath ''a/b/c.py'') (Some ''a/b/test_c.py'') = 2
    \<and> calculate_minimal_distance (OnePath ''a'') (Some ''a'') = 2"
proof -
  have none: "calculate_minimal_distance c None = 1000" by (cases c) simp_all
  have empty_one: "calculate_minimal_distance (OnePath []) t = 1000" by (cases t) simp_all
  have empty_list: "calculate_minimal_distance (PathEntries []) t = 1000" by (cases t) simp_all
  have empty_test: "calculate_minimal_distance c (Some []) = 1000" by (cases c) simp_all
  have one: "calculate_minimal_distance (OnePath a) (Some b) = min 1000 (directory_distance_spec a b)"
    using assms by (simp add: min_over_entries_Min)
  have many: "calculate_minimal_distance (PathEntries es) (Some b)
        = Min (insert 1000 ((\<lambda>e. directory_distance_spec (filename e) b) ` set es))"
    using assms by (simp add: min_over_entries_Min)
  have ex1: "calculate_minimal_distance (OnePath ''a/b/c.py'') (Some ''a/b/test_c.py'') = 2"
    by (simp add: min_over_entries_def entry_distance_def str_split_def scan_prefix.simps)
  have ex2: "calculate_minimal_distance (OnePath ''a'') (Some ''a'') = 2"
    by (simp add: min_over_entries_def entry_distance_def str_split_def scan_prefix.simps)
  from none empty_one empty_list empty_test one many ex1 ex2 show ?thesis by simp
qed

theorem directory_distance_capped_witness:
  "calculate_minimal_distance (OnePath ''a/b/c.py'') (Some ''a/b/test_c.py'')
     = min 1000 (directory_distance_spec ''a/b/c.py'' ''a/b/test_c.py'')
   \<and> directory_distance_spec ''a/b/c.py'' ''a/b/test_c.py'' = 2
   \<and> calculate_minimal_distance
         (PathEntries [\<lparr>filename = ''x/y/z.py''\<rparr>, \<lparr>filename = ''a/b/c.py''\<rparr>])
         (Some ''a/b/test_c.py'') = 2"
proof -
  have a: "''a/b/c.py'' \<noteq> []" and b: "''a/b/test_c.py'' \<noteq> []"
    and es: "[\<lparr>filename = ''x/y/z.py''\<rparr>, \<lparr>filename = ''a/b/c.py''\<rparr>] \<noteq> []"
    by simp_all
  have s1: "directory_distance_spec ''a/b/c.py'' ''a/b/test_c.py'' = 2"
    by (simp add: directory_distance_spec_def matching_prefix_def str_split_def)
  have s2: "directory_distance_spec ''x/y/z.py'' ''a/b/test_c.py'' = 6"
    by (simp add: directory_distance_spec_def matching_prefix_def str_split_def)
  from directory_distance_capped [OF a b es] s1 s2 show ?thesis by simp
qed

text \<open>
  Claim C7. The distance of two single paths is the same in both orders: the sum of the
  component counts and the outcome of the prefix scan, from any starting distance, are
  unchanged when the two paths are swapped.
\<close>

theorem directory_distance_symmetric:
  "calculate_minimal_distance (OnePath a) (Some b) = calculate_minimal_distance (OnePath b) (Some a)
   \<and> int (length (str_split CHR ''/'' a)) + int (length (str_split CHR ''/'' b))
       = int (length (str_split CHR ''/'' b)) + int (length (str_split CHR ''/'' a))
   \<and> scan_prefix (str_split CHR ''/'' b) (str_split CHR ''/'' a)
         (min (length (str_split CHR ''/'' a) - 1) (length (str_split CHR ''/'' b) - 1)) 0 d
       = scan_prefix (str_split CHR ''/'' a) (str_split CHR ''/'' b)
         (min (length (str_split CHR ''/'' b) - 1) (length (str_split CHR ''/'' a) - 1)) 0 d"
proof -
  have spec: "directory_distance_spec a b = directory_distance_spec b a"
    by (simp add: directory_distance_spec_def Let_def matching_prefix_commute [of "str_split CHR ''/'' a"])
  have "calculate_minimal_distance (OnePath a) (Some b) = calculate_minimal_distance (OnePath b) (Some a)"
  proof (cases "a = [] \<or> b = []")
    case True
    then show ?thesis by auto
  next
    case False
    then show ?thesis by (simp add: min_over_entries_Min spec)
  qed
  moreover have "scan_prefix (str_split CHR ''/'' b) (str_split CHR ''/'' a)
         (min (length (str_split CHR ''/'' a) - 1) (length (str_split CHR ''/'' b) - 1)) 0 d
       = scan_prefix (str_split CHR ''/'' a) (str_split CHR ''/'' b)
         (min (length (str_split CHR ''/'' b) - 1) (length (str_split CHR ''/'' a) - 1)) 0 d"
    unfolding scan_prefix_matching
    by (simp add: matching_prefix_commute [of "str_split CHR ''/'' a"])
  ultimately show ?thesis by simp
qed

theorem directory_distance_symmetric_witness:
  "calculate_minimal_distance (OnePath ''a/b/c/d.py'') (Some ''a/t.py'') = 4
   \<and> calculate_minimal_distance (OnePath ''a/t.py'') (Some ''a/b/c/d.py'') = 4"
proof -
  have "calculate_minimal_distance (OnePath ''a/b/c/d.py'') (Some ''a/t.py'') = 4"
    by (simp add: min_over_entries_def entry_distance_def str_split_def scan_prefix.simps)
  with directory_distance_symmetric [of "''a/b/c/d.py''" "''a/t.py''" 0] show ?thesis by simp
qed

subsection \<open>Common tokens\<close>

lemma first_piece_iff:
  "(\<forall>c \<in> set t. \<not> sep c) \<and> (\<exists>after. s = t @ after \<and> (after = [] \<or> sep (hd after)))
     \<longleftrightarrow> t = takeWhile (\<lambda>c. \<not> sep c) s"
proof
  assume "(\<forall>c \<in> set t. \<not> sep c) \<and> (\<exists>after. s = t @ after \<and> (after = [] \<or> sep (hd after)))"
  then obtain after where free: "\<forall>c \<in> set t. \<not> sep c" and s: "s = t @ after"
    and stop: "after = [] \<or> sep (hd after)" by blast
  from stop have "takeWhile (\<lambda>c. \<not> sep c) after = []" by (cases after) auto
  with free s show "t = takeWhile (\<lambda>c. \<not> sep c) s" by (simp add: takeWhile_append2)
next
  assume t: "t = takeWhile (\<lambda>c. \<not> sep c) s"
  have "s = t @ dropWhile (\<lambda>c. \<not> sep c) s" by (simp add: t)
  moreover have "dropWhile (\<lambda>c. \<not> sep c) s = [] \<or> sep (hd (dropWhile (\<lambda>c. \<not> sep c) s))"
    using hd_dropWhile [of "\<lambda>c. \<not> sep c" s] by auto
  moreover have "\<forall>c \<in> set t. \<not> sep c" unfolding t by (auto dest: set_takeWhileD)
  ultimately show "(\<forall>c \<in> set t. \<not> sep c) \<and> (\<exists>after. s = t @ after \<and> (after = [] \<or> sep (hd after)))"
    by blast
qed

lemma pieces_afterI:
  assumes "\<forall>c \<in> set t. \<not> sep c" and "before \<noteq> []" and "sep (last before)"
    and "after = [] \<or> sep (hd after)"
  shows "t \<in> pieces_after sep (before @ t @ after)"
proof -
  from assms(2-4)
  have "\<exists>b a. before @ t @ after = b @ t @ a \<and> b \<noteq> [] \<and> sep (last b)
          \<and> (a = [] \<or> sep (hd a))"
    by (intro exI [of _ before] exI [of _ after]) simp
  with assms(1) show ?thesis by (simp add: pieces_after_def)
qed

lemma pieces_after_Nil: "pieces_after sep [] = {}"
  by (auto simp: pieces_after_def)

lemma pieces_after_sep:
  assumes "sep c"
  shows "pieces_after sep (c # cs) = insert (takeWhile (\<lambda>c. \<not> sep c) cs) (pieces_after sep cs)"
proof (intro set_eqI iffI)
  fix t assume "t \<in> pieces_after sep (c # cs)"
  then obtain before after where free: "\<forall>c \<in> set t. \<not> sep c"
    and s: "c # cs = before @ t @ after" and ne: "before \<noteq> []" and l: "sep (last before)"
    and stop: "after = [] \<or> sep (hd after)"
    by (auto simp: pieces_after_def)
  from ne s obtain before' where b: "before = c # before'" and cs: "cs = before' @ t @ after"
    by (cases before) auto
  show "t \<in> insert (takeWhile (\<lambda>c. \<not> sep c) cs) (pieces_after sep cs)"
  proof (cases "before' = []")
    case True
    with cs free stop have "t = takeWhile (\<lambda>c. \<not> sep c) cs"
      using first_piece_iff [of t sep cs] by auto
    then show ?thesis by simp
  next
    case False
    with l b have "sep (last before')" by simp
    with False free stop have "t \<in> pieces_after sep (before' @ t @ after)"
      by (intro pieces_afterI)
    then show ?thesis by (simp add: cs)
  qed
next
  fix t assume "t \<in> insert (takeWhile (\<lambda>c. \<not> sep c) cs) (pieces_after sep cs)"
  then consider "t = takeWhile (\<lambda>c. \<not> sep c) cs" | "t \<in> pieces_after sep cs" by blast
  then show "t \<in> pieces_after sep (c # cs)"
  proof cases
    case 1
    let ?after = "dropWhile (\<lambda>c. \<not> sep c) cs"
    have free: "\<forall>c \<in> set t. \<not> sep c" unfolding 1 by (auto dest: set_takeWhileD)
    have cs: "t @ ?after = cs" unfolding 1 by simp
    have stop: "?after = [] \<or> sep (hd ?after)"
      using hd_dropWhile [of "\<lambda>c. \<not> sep c" cs] by auto
    have "t \<in> pieces_after sep ([c] @ t @ ?after)"
      using free stop assms by (intro pieces_afterI) simp_all
    then show ?thesis by (simp add: cs)
  next
    case 2
    then obtain before after where free: "\<forall>c \<in> set t. \<not> sep c"
      and cs: "cs = before @ t @ after" and ne: "before \<noteq> []" and l: "sep (last before)"
      and stop: "after = [] \<or> sep (hd after)"
      by (auto simp: pieces_after_def)
    have "t \<in> pieces_after sep ((c # before) @ t @ after)"
      using free stop ne l by (intro pieces_afterI) simp_all
    then show ?thesis by (simp add: cs)
  qed
qed

lemma pieces_after_nonsep:
  assumes "\<not> sep c"
  shows "pieces_after sep (c # cs) = pieces_after sep cs"
proof (intro set_eqI iffI)
  fix t assume "t \<in> pieces_after sep (c # cs)"
  then obtain before after where free: "\<forall>c \<in> set t. \<not> sep c"
    and s: "c # cs = before @ t @ after" and ne: "before \<noteq> []" and l: "sep (last before)"
    and stop: "after = [] \<or> sep (hd after)"
    by (auto simp: pieces_after_def)
  from ne s obtain before' where b: "before = c # before'" and cs: "cs = before' @ t @ after"
    by (cases before) auto
  from l b assms have ne': "before' \<noteq> []" by auto
  with l b have "sep (last before')" by simp
  with ne' free stop have "t \<in> pieces_after sep (before' @ t @ after)"
    by (intro pieces_afterI)
  then show "t \<in> pieces_after sep cs" by (simp add: cs)
next
  fix t assume "t \<in> pieces_after sep cs"
  then obtain before after where free: "\<forall>c \<in> set t. \<not> sep c"
    and cs: "cs = before @ t @ after" and ne: "before \<noteq> []" and l: "sep (last before)"
    and stop: "after = [] \<or> sep (hd after)"
    by (auto simp: pieces_after_def)
  have "t \<in> pieces_after sep ((c # before) @ t @ after)"
    using free stop ne l by (intro pieces_afterI) simp_all
  then show "t \<in> pieces_after sep (c # cs)" by (simp add: cs)
qed

lemma set_split_acc:
  "set (split_acc sep cur s)
     = insert (cur @ takeWhile (\<lambda>c. \<not> sep c) s) (pieces_after sep s)"
proof (induction s arbitrary: cur)
  case Nil
  then show ?case by (simp add: pieces_after_Nil)
next
  case (Cons c cs)
  show ?case
  proof (cases "sep c")
    case True
    then show ?thesis by (simp add: Cons.IH pieces_after_sep)
  next
    case False
    then show ?thesis by (simp add: Cons.IH pieces_after_nonsep)
  qed
qed

lemma path_tokens_specI:
  assumes "t \<noteq> []" and "\<forall>c \<in> set t. \<not> is_separator c"
    and "before = [] \<or> is_separator (last before)"
    and "after = [] \<or> is_separator (hd after)"
  shows "t \<in> path_tokens_spec (before @ t @ after)"
proof -
  from assms(3,4)
  have "\<exists>b a. before @ t @ after = b @ t @ a \<and> (b = [] \<or> is_separator (last b))
          \<and> (a = [] \<or> is_separator (hd a))"
    by (intro exI [of _ before] exI [of _ after]) simp
  with assms(1,2) show ?thesis by (simp add: path_tokens_spec_def)
qed

lemma path_tokens_spec_iff:
  "t \<in> path_tokens_spec s \<longleftrightarrow>
     t \<noteq> [] \<and> (t = takeWhile (\<lambda>c. \<not> is_separator c) s \<or> t \<in> pieces_after is_separator s)"
proof
  assume "t \<in> path_tokens_spec s"
  then obtain before after where ne: "t \<noteq> []" and free: "\<forall>c \<in> set t. \<not> is_separator c"
    and s: "s = before @ t @ after"
    and start: "before = [] \<or> is_separator (last before)"
    and stop: "after = [] \<or> is_separator (hd after)"
    by (auto simp: path_tokens_spec_def)
  show "t \<noteq> [] \<and> (t = takeWhile (\<lambda>c. \<not> is_separator c) s \<or> t \<in> pieces_after is_separator s)"
  proof (cases "before = []")
    case True
    from stop have "takeWhile (\<lambda>c. \<not> is_separator c) after = []" by (cases after) auto
    with free have "takeWhile (\<lambda>c. \<not> is_separator c) (t @ after) = t"
      by (simp add: takeWhile_append2)
    with True s ne show ?thesis by simp
  next
    case False
    with start free stop have "t \<in> pieces_after is_separator (before @ t @ after)"
      by (intro pieces_afterI) simp_all
    with s ne show ?thesis by simp
  qed
next
  assume r: "t \<noteq> [] \<and> (t = takeWhile (\<lambda>c. \<not> is_separator c) s \<or> t \<in> pieces_after is_separator s)"
  then have ne: "t \<noteq> []" by (rule conjunct1)
  from r consider "t = takeWhile (\<lambda>c. \<not> is_separator c) s" | "t \<in> pieces_after is_separator s"
    by (elim conjE disjE)
  then show "t \<in> path_tokens_spec s"
  proof cases
    case 1
    let ?after = "dropWhile (\<lambda>c. \<not> is_separator c) s"
    have free: "\<forall>c \<in> set t. \<not> is_separator c" unfolding 1 by (auto dest: set_takeWhileD)
    have s: "[] @ t @ ?after = s" unfolding 1 by simp
    have stop: "?after = [] \<or> is_separator (hd ?after)"
      using hd_dropWhile [of "\<lambda>c. \<not> is_separator c" s] by auto
    have "t \<in> path_tokens_spec ([] @ t @ ?after)"
      using ne free stop by (intro path_tokens_specI) simp_all
    then show ?thesis by (simp only: s)
  next
    case 2
    then obtain before after where free: "\<forall>c \<in> set t. \<not> is_separator c"
      and s: "s = before @ t @ after" and "before \<noteq> []" and "is_separator (last before)"
      and stop: "after = [] \<or> is_separator (hd after)"
      by (auto simp: pieces_after_def)
    then have "t \<in> path_tokens_spec (before @ t @ after)"
      using ne by (intro path_tokens_specI) simp_all
    with s show ?thesis by simp
  qed
qed

lemma set_re_split_tokens:
  "set (filter (\<lambda>token. token \<noteq> []) (re_split_slash_dot s)) = path_tokens_spec s"
proof (intro set_eqI)
  fix t
  show "t \<in> set (filter (\<lambda>token. token \<noteq> []) (re_split_slash_dot s)) \<longleftrightarrow> t \<in> path_tokens_spec s"
    unfolding path_tokens_spec_iff set_filter mem_Collect_eq re_split_slash_dot_def set_split_acc
    by auto
qed

text \<open>
  Claim C8. \<open>calculate_common_tokens\<close> returns 0 when either input is empty or absent;
  for two non-empty paths it returns the number of tokens the two paths share, the tokens
  of a path being its non-empty pieces between the characters \<open>/\<close> and \<open>.\<close>; it is
  symmetric in its arguments; \<open>a/b/c.py\<close> and \<open>a/b_c.py\<close> share 2 tokens.
\<close>

theorem common_token_count:
  assumes "a \<noteq> []" and "b \<noteq> []"
  shows "calculate_common_tokens None t = 0
    \<and> calculate_common_tokens c None = 0
    \<and> calculate_common_tokens (Some []) t = 0
    \<and> calculate_common_tokens c (Some []) = 0
    \<and> calculate_common_tokens (Some a) (Some b) = card (path_tokens_spec a \<inter> path_tokens_spec b)
    \<and> calculate_common_tokens x y = calculate_common_tokens y x
    \<and> calculate_common_tokens (Some ''a/b/c.py'') (Some ''a/b_c.py'') = 2"
proof -
  have none: "calculate_common_tokens c None = 0" by (cases c) simp_all
  have e1: "calculate_common_tokens (Some []) t = 0" by (cases t) simp_all
  have e2: "calculate_common_tokens c (Some []) = 0" by (cases c) simp_all
  note tokens = set_re_split_tokens
  have inter: "calculate_common_tokens (Some a) (Some b) = card (path_tokens_spec a \<inter> path_tokens_spec b)"
    using assms by (simp add: tokens Let_def del: set_filter)
  have sym: "calculate_common_tokens x y = calculate_common_tokens y x"
    by (cases x; cases y) (auto simp: Let_def Int_commute)
  have ex: "calculate_common_tokens (Some ''a/b/c.py'') (Some ''a/b_c.py'') = 2"
    by (simp add: re_split_slash_dot_def is_separator_def)
  from none e1 e2 inter sym ex show ?thesis by simp
qed

theorem common_token_count_witness:
  "calculate_common_tokens (Some ''src/app.py'') (Some ''tests/test_app.py'')
     = card (path_tokens_spec ''src/app.py'' \<inter> path_tokens_spec ''tests/test_app.py'')
   \<and> calculate_common_tokens (Some ''src/app.py'') (Some ''tests/test_app.py'') = 1"
proof -
  have a: "''src/app.py'' \<noteq> []" and b: "''tests/test_app.py'' \<noteq> []" by simp_all
  have "calculate_common_tokens (Some ''src/app.py'') (Some ''tests/test_app.py'') = 1"
    by (simp add: re_split_slash_dot_def is_separator_def)
  with common_token_count [OF a b] show ?thesis by simp
qed

section \<open>Properties of the Feature Synthesizer\<close>

lemma count_failure_fields:
  "failures_7_days (count_failure pr data fd)
     = failures_7_days data + (if fd > pr - timedelta_days 7 then 1 else 0)"
  "failures_14_days (count_failure pr data fd)
     = failures_14_days data + (if fd > pr - timedelta_days 14 then 1 else 0)"
  "failures_28_days (count_failure pr data fd)
     = failures_28_days data + (if fd > pr - timedelta_days 28 then 1 else 0)"
  "tf_test_case_file_path (count_failure pr data fd) = tf_test_case_file_path data"
  "tf_test_case_name (count_failure pr data fd) = tf_test_case_name data"
  "tf_actual_result (count_failure pr data fd) = tf_actual_result data"
  by (simp_all add: count_failure_def Let_def)

lemma foldl_count_failure:
  "failures_7_days (foldl (count_failure pr) data fds)
     = failures_7_days data + int (length (filter (\<lambda>fd. fd > pr - timedelta_days 7) fds))"
  "failures_14_days (foldl (count_failure pr) data fds)
     = failures_14_days data + int (length (filter (\<lambda>fd. fd > pr - timedelta_days 14) fds))"
  "failures_28_days (foldl (count_failure pr) data fds)
     = failures_28_days data + int (length (filter (\<lambda>fd. fd > pr - timedelta_days 28) fds))"
  "tf_test_case_file_path (foldl (count_failure pr) data fds) = tf_test_case_file_path data"
  "tf_test_case_name (foldl (count_failure pr) data fds) = tf_test_case_name data"
  "tf_actual_result (foldl (count_failure pr) data fds) = tf_actual_result data"
  by (induction fds arbitrary: data; simp add: count_failure_fields)+

lemma process_test_run_fields:
  "failures_7_days (process_test_run tr pr fds)
     = int (length (filter (\<lambda>fd. fd > pr - timedelta_days 7) fds))"
  "failures_14_days (process_test_run tr pr fds)
     = int (length (filter (\<lambda>fd. fd > pr - timedelta_days 14) fds))"
  "failures_28_days (process_test_run tr pr fds)
     = int (length (filter (\<lambda>fd. fd > pr - timedelta_days 28) fds))"
  "tf_test_case_file_path (process_test_run tr pr fds) = test_case_file_path tr"
  "tf_test_case_name (process_test_run tr pr fds) = test_case_name tr"
  "tf_actual_result (process_test_run tr pr fds) = (if actual_result tr = ''passed'' then 0 else 1)"
  by (simp_all add: process_test_run_def foldl_count_failure)

lemma count_change_fields:
  "changes_3_days (count_change pr data cd)
     = changes_3_days data + (if cd \<ge> pr - timedelta_days 3 then 1 else 0)"
  "changes_14_days (count_change pr data cd)
     = changes_14_days data + (if cd \<ge> pr - timedelta_days 14 then 1 else 0)"
  "file_name (count_change pr data cd) = file_name data"
  "file_extension (count_change pr data cd) = file_extension data"
  by (simp_all add: count_change_def Let_def)

lemma foldl_count_change:
  "changes_3_days (foldl (count_change pr) data cds)
     = changes_3_days data + int (length (filter (\<lambda>cd. cd \<ge> pr - timedelta_days 3) cds))"
  "changes_14_days (foldl (count_change pr) data cds)
     = changes_14_days data + int (length (filter (\<lambda>cd. cd \<ge> pr - timedelta_days 14) cds))"
  "file_name (foldl (count_change pr) data cds) = file_name data"
  "file_extension (foldl (count_change pr) data cds) = file_extension data"
  by (induction cds arbitrary: data; simp add: count_change_fields)+

lemma process_file_change_fields:
  "changes_3_days (process_file_change path pr cds)
     = int (length (filter (\<lambda>cd. cd \<ge> pr - timedelta_days 3) cds))"
  "changes_14_days (process_file_change path pr cds)
     = int (length (filter (\<lambda>cd. cd \<ge> pr - timedelta_days 14) cds))"
  "file_name (process_file_change path pr cds) = fst (splitext path)"
  by (simp_all add: process_file_change_def foldl_count_change split: prod.split)

lemma length_filter_mono:
  "(\<And>x. P x \<Longrightarrow> Q x) \<Longrightarrow> length (filter P xs) \<le> length (filter Q xs)"
  by (induction xs) auto

text \<open>
  Claim C1. For every test run, date \<open>pr_date\<close> and list of failure dates,
  \<open>process_test_run\<close> returns as \<open>failures_7_days\<close>, \<open>failures_14_days\<close> and
  \<open>failures_28_days\<close> the number of entries of the list strictly after \<open>pr_date\<close>
  minus 7, 14 and 28 days. A failure exactly on a boundary is not counted in that
  boundary's window. For the failure dates \<open>d - 1\<close>, \<open>d - 10\<close>, \<open>d - 20\<close>,
  \<open>d - 30\<close> (in days) the three counts are 1, 2 and 3.
\<close>

theorem failure_window_counts:
  "failures_7_days (process_test_run test_run pr_date failure_dates)
     = int (length (filter (\<lambda>fd. fd > pr_date - timedelta_days 7) failure_dates))
   \<and> failures_14_days (process_test_run test_run pr_date failure_dates)
     = int (length (filter (\<lambda>fd. fd > pr_date - timedelta_days 14) failure_dates))
   \<and> failures_28_days (process_test_run test_run pr_date failure_dates)
     = int (length (filter (\<lambda>fd. fd > pr_date - timedelta_days 28) failure_dates))
   \<and> failures_7_days (process_test_run test_run pr_date [pr_date - timedelta_days 7]) = 0
   \<and> failures_14_days (process_test_run test_run pr_date [pr_date - timedelta_days 14]) = 0
   \<and> failures_28_days (process_test_run test_run pr_date [pr_date - timedelta_days 28]) = 0
   \<and> failures_7_days (process_test_run test_run d
         [d - timedelta_days 1, d - timedelta_days 10, d - timedelta_days 20,
          d - timedelta_days 30]) = 1
   \<and> failures_14_days (process_test_run test_run d
         [d - timedelta_days 1, d - timedelta_days 10, d - timedelta_days 20,
          d - timedelta_days 30]) = 2
   \<and> failures_28_days (process_test_run test_run d
         [d - timedelta_days 1, d - timedelta_days 10, d - timedelta_days 20,
          d - timedelta_days 30]) = 3"
  by (simp add: process_test_run_fields timedelta_days_def)

theorem failure_window_counts_witness:
  "failures_7_days (process_test_run
      \<lparr>test_case_file_path = ''tests/test_app.py'', test_case_name = ''test_index'',
       actual_result = ''failed''\<rparr>
      (timedelta_days 100) [timedelta_days 93, timedelta_days 94, timedelta_days 72]) = 1
   \<and> failures_28_days (process_test_run
      \<lparr>test_case_file_path = ''tests/test_app.py'', test_case_name = ''test_index'',
       actual_result = ''failed''\<rparr>
      (timedelta_days 100) [timedelta_days 93, timedelta_days 94, timedelta_days 72]) = 2"
  using failure_window_counts [of
      "\<lparr>test_case_file_path = ''tests/test_app.py'', test_case_name = ''test_index'',
        actual_result = ''failed''\<rparr>"
      "timedelta_days 100" "[timedelta_days 93, timedelta_days 94, timedelta_days 72]" 0]
  by (simp add: timedelta_days_def)

text \<open>
  Claim C2. For every file path, date \<open>pr_date\<close> and list of change dates,
  \<open>process_file_change\<close> returns as \<open>changes_3_days\<close> and \<open>changes_14_days\<close> the
  number of entries of the list on or after \<open>pr_date\<close> minus 3 and 14 days. A change
  exactly on a boundary is counted, where a failure exactly on its boundary is not.
\<close>

theorem change_window_counts:
  "changes_3_days (process_file_change file_path pr_date change_dates)
     = int (length (filter (\<lambda>cd. cd \<ge> pr_date - timedelta_days 3) change_dates))
   \<and> changes_14_days (process_file_change file_path pr_date change_dates)
     = int (length (filter (\<lambda>cd. cd \<ge> pr_date - timedelta_days 14) change_dates))
   \<and> changes_3_days (process_file_change file_path pr_date [pr_date - timedelta_days 3]) = 1
   \<and> changes_14_days (process_file_change file_path pr_date [pr_date - timedelta_days 14]) = 1
   \<and> failures_7_days (process_test_run test_run pr_date [pr_date - timedelta_days 7]) = 0"
  by (simp add: process_file_change_fields process_test_run_fields)

theorem change_window_counts_witness:
  "changes_3_days (process_file_change ''src/app.py'' (timedelta_days 100)
      [timedelta_days 97, timedelta_days 96, timedelta_days 86]) = 1
   \<and> changes_14_days (process_file_change ''src/app.py'' (timedelta_days 100)
      [timedelta_days 97, timedelta_days 96, timedelta_days 86]) = 3"
  using change_window_counts [of "''src/app.py''" "timedelta_days 100"
      "[timedelta_days 97, timedelta_days 96, timedelta_days 86]"]
  by (simp add: timedelta_days_def)

text \<open>
  Claim C10. The windowed counts grow with the window: every record of
  \<open>process_test_run\<close> has \<open>failures_7_days \<le> failures_14_days \<le> failures_28_days\<close>,
  and every record of \<open>process_file_change\<close> has \<open>changes_3_days \<le> changes_14_days\<close>.
\<close>

theorem window_counts_monotone:
  "failures_7_days (process_test_run test_run pr_date failure_dates)
     \<le> failures_14_days (process_test_run test_run pr_date failure_dates)
   \<and> failures_14_days (process_test_run test_run pr_date failure_dates)
     \<le> failures_28_days (process_test_run test_run pr_date failure_dates)
   \<and> changes_3_days (process_file_change file_path pr_date change_dates)
     \<le> changes_14_days (process_file_change file_path pr_date change_dates)"
  by (simp add: process_test_run_fields process_file_change_fields timedelta_days_def
      length_filter_mono)

theorem window_counts_monotone_witness:
  "failures_7_days (process_test_run
      \<lparr>test_case_file_path = ''t.py'', test_case_name = ''t'', actual_result = ''passed''\<rparr>
      (timedelta_days 100) [timedelta_days 95, timedelta_days 90, timedelta_days 80]) = 1
   \<and> failures_14_days (process_test_run
      \<lparr>test_case_file_path = ''t.py'', test_case_name = ''t'', actual_result = ''passed''\<rparr>
      (timedelta_days 100) [timedelta_days 95, timedelta_days 90, timedelta_days 80]) = 2
   \<and> failures_28_days (process_test_run
      \<lparr>test_case_file_path = ''t.py'', test_case_name = ''t'', actual_result = ''passed''\<rparr>
      (timedelta_days 100) [timedelta_days 95, timedelta_days 90, timedelta_days 80]) = 3"
proof -
  have "failures_7_days (process_test_run
      \<lparr>test_case_file_path = ''t.py'', test_case_name = ''t'', actual_result = ''passed''\<rparr>
      (timedelta_days 100) [timedelta_days 95, timedelta_days 90, timedelta_days 80]) = 1"
    and "failures_28_days (process_test_run
      \<lparr>test_case_file_path = ''t.py'', test_case_name = ''t'', actual_result = ''passed''\<rparr>
      (timedelta_days 100) [timedelta_days 95, timedelta_days 90, timedelta_days 80]) = 3"
    by (simp_all add: process_test_run_def count_failure_def timedelta_days_def)
  moreover have "failures_14_days (process_test_run
      \<lparr>test_case_file_path = ''t.py'', test_case_name = ''t'', actual_result = ''passed''\<rparr>
      (timedelta_days 100) [timedelta_days 95, timedelta_days 90, timedelta_days 80]) = 2"
    by (simp add: process_test_run_def count_failure_def timedelta_days_def)
  ultimately show ?thesis
    using window_counts_monotone [of
      "\<lparr>test_case_file_path = ''t.py'', test_case_name = ''t'', actual_result = ''passed''\<rparr>"
      "timedelta_days 100" "[timedelta_days 95, timedelta_days 90, timedelta_days 80]"]
    by simp
qed

section \<open>Properties of the Pair Expander and the Dataset Assembler\<close>

lemma feature_row_keys:
  "map fst (feature_row strftime pr da n t f) = dataset_columns"
  by (simp add: feature_row_def dict_update_def test_features_items_def
      file_features_items_def dataset_columns_def)

lemma feature_row_lookup:
  "map_of (feature_row strftime pr da n t f) ''actual_result'' = Some (PyInt (tf_actual_result t))"
  "map_of (feature_row strftime pr da n t f) ''num_files_changed'' = Some (PyInt n)"
  "map_of (feature_row strftime pr da n t f) ''pr_link'' = Some (PyStr (pr_link pr))"
  by (simp_all add: feature_row_def dict_update_def test_features_items_def
      file_features_items_def)

lemma filter_fetch_files_changed:
  "pr \<in> set prs \<Longrightarrow>
   filter (\<lambda>row. fc_pr_link row = pr_link pr) (fetch_files_changed db (map pr_link prs))
     = file_changes_of db pr"
  unfolding fetch_files_changed_def file_changes_of_def filter_filter
  by (rule filter_cong) auto

lemma filter_fetch_test_runs:
  "pr \<in> set prs \<Longrightarrow>
   filter (\<lambda>row. tr_pr_link row = pr_link pr) (fetch_test_runs db (map pr_link prs))
     = test_runs_of db pr"
  unfolding fetch_test_runs_def test_runs_of_def filter_filter
  by (rule filter_cong) auto

lemma length_pr_feature_rows:
  "length (pr_feature_rows strftime fd td fh th pr)
     = length (filter (\<lambda>row. tr_pr_link row = pr_link pr) td)
       * length (filter (\<lambda>row. fc_pr_link row = pr_link pr) fd)"
  by (simp add: pr_feature_rows_def Let_def)

lemma index_div_mod:
  fixes i j n :: nat
  assumes "j < n"
  shows "(i * n + j) div n = i" and "(i * n + j) mod n = j"
proof -
  from assms have "n \<noteq> 0" by simp
  then have "(i * n + j) div n = i + j div n" by (rule div_mult_self3)
  with assms show "(i * n + j) div n = i" by simp
  from assms show "(i * n + j) mod n = j" by simp
qed

lemma nth_pr_feature_rows:
  assumes "i < length (filter (\<lambda>row. tr_pr_link row = pr_link pr) td)"
    and "j < length (filter (\<lambda>row. fc_pr_link row = pr_link pr) fd)"
  shows "pr_feature_rows strftime fd td fh th pr
            ! (i * length (filter (\<lambda>row. fc_pr_link row = pr_link pr) fd) + j)
         = feature_row strftime pr
             (case list_of_authors pr of
                None \<Rightarrow> 0
              | Some authors \<Rightarrow> if authors = [] then 0 else int (length authors))
             (int (length (filter (\<lambda>row. fc_pr_link row = pr_link pr) fd)))
             (process_test_run
                \<lparr>test_case_file_path =
                   tr_test_case_file_path (filter (\<lambda>row. tr_pr_link row = pr_link pr) td ! i),
                 test_case_name =
                   tr_test_case_name (filter (\<lambda>row. tr_pr_link row = pr_link pr) td ! i),
                 actual_result =
                   tr_actual_result (filter (\<lambda>row. tr_pr_link row = pr_link pr) td ! i)\<rparr>
                (date_of_pr pr)
                (get_or_empty th (get_test_run_key
                   (tr_test_case_file_path (filter (\<lambda>row. tr_pr_link row = pr_link pr) td ! i))
                   (tr_test_case_name (filter (\<lambda>row. tr_pr_link row = pr_link pr) td ! i)))))
             (process_file_change
                (files_paths_changed (filter (\<lambda>row. fc_pr_link row = pr_link pr) fd ! j))
                (date_of_pr pr)
                (get_or_empty fh
                   (files_paths_changed (filter (\<lambda>row. fc_pr_link row = pr_link pr) fd ! j))))"
proof -
  let ?ts = "filter (\<lambda>row. tr_pr_link row = pr_link pr) td"
  let ?fs = "filter (\<lambda>row. fc_pr_link row = pr_link pr) fd"
  have "i * length ?fs + j < Suc i * length ?fs" using assms(2) by simp
  also have "\<dots> \<le> length ?ts * length ?fs"
    using assms(1) by (simp add: Suc_leI mult_le_mono1 del: mult_Suc)
  finally have lt: "i * length ?fs + j < length ?ts * length ?fs" .
  have d: "(i * length ?fs + j) div length ?fs = i"
    and m: "(i * length ?fs + j) mod length ?fs = j"
    using assms(2) by (rule index_div_mod)+
  show ?thesis
    using lt assms
    by (simp add: pr_feature_rows_def Let_def product_nth d m del: mult_Suc)
qed

lemma pr_feature_rows_all:
  "row \<in> set (pr_feature_rows strftime fd td fh th pr) \<Longrightarrow>
   \<exists>da t f. row = feature_row strftime pr da
       (int (length (filter (\<lambda>row. fc_pr_link row = pr_link pr) fd))) t f"
  by (auto simp: pr_feature_rows_def Let_def)

lemma length_collect_feature_data:
  "length (collect_feature_data strftime db prs)
     = sum_list (map (\<lambda>pr. length (test_runs_of db pr) * length (file_changes_of db pr)) prs)"
proof -
  have "map (\<lambda>pr. length (pr_feature_rows strftime (fetch_files_changed db (map pr_link prs))
            (fetch_test_runs db (map pr_link prs)) fh th pr)) prs
        = map (\<lambda>pr. length (test_runs_of db pr) * length (file_changes_of db pr)) prs" for fh th
    by (rule map_cong)
      (simp_all add: length_pr_feature_rows filter_fetch_files_changed filter_fetch_test_runs)
  then show ?thesis
    unfolding collect_feature_data_def Let_def length_concat map_map comp_def
    by (rule arg_cong)
qed

lemma collect_feature_data_rows:
  "row \<in> set (collect_feature_data strftime db prs) \<Longrightarrow>
   \<exists>pr da n t f. row = feature_row strftime pr da n t f"
proof -
  assume "row \<in> set (collect_feature_data strftime db prs)"
  then obtain pr fd td fh th where "row \<in> set (pr_feature_rows strftime fd td fh th pr)"
    by (auto simp: collect_feature_data_def Let_def)
  from pr_feature_rows_all [OF this] show ?thesis by blast
qed

text \<open>
  Claim C3. For every pull request of the processing set with \<open>M\<close> test-run rows and
  \<open>N\<close> file-change rows, the loop body emits exactly \<open>M * N\<close> rows (none when either
  is 0). The row at position \<open>i * N + j\<close> pairs the \<open>i\<close>-th test run with the \<open>j\<close>-th
  file change: its \<open>actual_result\<close> is 0 when that test run passed and 1 otherwise, and
  its \<open>num_files_changed\<close> is \<open>N\<close>. The rows of a pass are those of its pull requests
  together. This holds whatever the two history indices contain.
\<close>

theorem pair_expander_cross_product:
  assumes "pr \<in> set prs"
  shows "length (pr_feature_rows strftime (fetch_files_changed db (map pr_link prs))
            (fetch_test_runs db (map pr_link prs)) fh th pr)
          = length (test_runs_of db pr) * length (file_changes_of db pr)
    \<and> (\<forall>i < length (test_runs_of db pr). \<forall>j < length (file_changes_of db pr).
          map_of (pr_feature_rows strftime (fetch_files_changed db (map pr_link prs))
                    (fetch_test_runs db (map pr_link prs)) fh th pr
                  ! (i * length (file_changes_of db pr) + j)) ''actual_result''
            = Some (PyInt (if tr_actual_result (test_runs_of db pr ! i) = ''passed'' then 0 else 1))
          \<and> map_of (pr_feature_rows strftime (fetch_files_changed db (map pr_link prs))
                    (fetch_test_runs db (map pr_link prs)) fh th pr
                  ! (i * length (file_changes_of db pr) + j)) ''num_files_changed''
            = Some (PyInt (int (length (file_changes_of db pr)))))
    \<and> length (collect_feature_data strftime db prs)
          = sum_list (map (\<lambda>pr. length (test_runs_of db pr) * length (file_changes_of db pr)) prs)"
proof -
  let ?fd = "fetch_files_changed db (map pr_link prs)"
  let ?td = "fetch_test_runs db (map pr_link prs)"
  note fs = filter_fetch_files_changed [OF assms, of db]
  note ts = filter_fetch_test_runs [OF assms, of db]
  have len: "length (pr_feature_rows strftime ?fd ?td fh th pr)
      = length (test_runs_of db pr) * length (file_changes_of db pr)"
    by (simp add: length_pr_feature_rows fs ts)
  have rows: "map_of (pr_feature_rows strftime ?fd ?td fh th pr
                  ! (i * length (file_changes_of db pr) + j)) ''actual_result''
            = Some (PyInt (if tr_actual_result (test_runs_of db pr ! i) = ''passed'' then 0 else 1))
          \<and> map_of (pr_feature_rows strftime ?fd ?td fh th pr
                  ! (i * length (file_changes_of db pr) + j)) ''num_files_changed''
            = Some (PyInt (int (length (file_changes_of db pr))))"
    if "i < length (test_runs_of db pr)" and "j < length (file_changes_of db pr)" for i j
  proof -
    from that have "i < length (filter (\<lambda>row. tr_pr_link row = pr_link pr) ?td)"
      and "j < length (filter (\<lambda>row. fc_pr_link row = pr_link pr) ?fd)"
      by (simp_all add: fs ts)
    from nth_pr_feature_rows [OF this, of strftime fh th] show ?thesis
      by (simp add: fs ts feature_row_lookup process_test_run_fields)
  qed
  from len rows length_collect_feature_data show ?thesis by blast
qed


lemma fixture_fetch:
  "fetch_pull_requests fixture_db ''repo'' (Some (timedelta_days 100)) = [fixture_pr]"
  by (simp add: fetch_pull_requests_def fixture_db_def fixture_pr_def fixture_old_pr_def
      timedelta_days_def)

lemma fixture_test_runs: "length (test_runs_of fixture_db fixture_pr) = 2"
  by (simp add: test_runs_of_def fixture_db_def fixture_pr_def)

lemma fixture_file_changes: "length (file_changes_of fixture_db fixture_pr) = 3"
  by (simp add: file_changes_of_def fixture_db_def fixture_pr_def)

lemma fixture_second_test_run:
  "tr_actual_result (test_runs_of fixture_db fixture_pr ! Suc 0) = ''failed''"
  by (simp add: test_runs_of_def fixture_db_def fixture_pr_def)

theorem pair_expander_cross_product_witness:
  "fixture_pr \<in> set [fixture_pr]
   \<and> length (pr_feature_rows fixture_strftime
         (fetch_files_changed fixture_db (map pr_link [fixture_pr]))
         (fetch_test_runs fixture_db (map pr_link [fixture_pr])) Map.empty Map.empty fixture_pr) = 6
   \<and> map_of (pr_feature_rows fixture_strftime
         (fetch_files_changed fixture_db (map pr_link [fixture_pr]))
         (fetch_test_runs fixture_db (map pr_link [fixture_pr])) Map.empty Map.empty fixture_pr
         ! 4) ''actual_result'' = Some (PyInt 1)
   \<and> map_of (pr_feature_rows fixture_strftime
         (fetch_files_changed fixture_db (map pr_link [fixture_pr]))
         (fetch_test_runs fixture_db (map pr_link [fixture_pr])) Map.empty Map.empty fixture_pr
         ! 4) ''num_files_changed'' = Some (PyInt 3)
   \<and> length (collect_feature_data fixture_strftime fixture_db [fixture_pr]) = 6"
proof -
  have mem: "fixture_pr \<in> set [fixture_pr]" by simp
  note inst = pair_expander_cross_product [OF mem, of fixture_strftime fixture_db Map.empty Map.empty]
  from inst have len: "length (pr_feature_rows fixture_strftime
         (fetch_files_changed fixture_db (map pr_link [fixture_pr]))
         (fetch_test_runs fixture_db (map pr_link [fixture_pr])) Map.empty Map.empty fixture_pr) = 6"
    by (simp add: fixture_test_runs fixture_file_changes)
  from inst have total: "length (collect_feature_data fixture_strftime fixture_db [fixture_pr]) = 6"
    by (simp add: fixture_test_runs fixture_file_changes)
  have "(1::nat) < length (test_runs_of fixture_db fixture_pr)"
    and "(1::nat) < length (file_changes_of fixture_db fixture_pr)"
    by (simp_all add: fixture_test_runs fixture_file_changes)
  with inst have "map_of (pr_feature_rows fixture_strftime
         (fetch_files_changed fixture_db (map pr_link [fixture_pr]))
         (fetch_test_runs fixture_db (map pr_link [fixture_pr])) Map.empty Map.empty fixture_pr
         ! (1 * length (file_changes_of fixture_db fixture_pr) + 1)) ''actual_result''
       = Some (PyInt (if tr_actual_result (test_runs_of fixture_db fixture_pr ! 1) = ''passed''
                      then 0 else 1))
     \<and> map_of (pr_feature_rows fixture_strftime
         (fetch_files_changed fixture_db (map pr_link [fixture_pr]))
         (fetch_test_runs fixture_db (map pr_link [fixture_pr])) Map.empty Map.empty fixture_pr
         ! (1 * length (file_changes_of fixture_db fixture_pr) + 1)) ''num_files_changed''
       = Some (PyInt (int (length (file_changes_of fixture_db fixture_pr))))"
    by blast
  then have row: "map_of (pr_feature_rows fixture_strftime
         (fetch_files_changed fixture_db (map pr_link [fixture_pr]))
         (fetch_test_runs fixture_db (map pr_link [fixture_pr])) Map.empty Map.empty fixture_pr
         ! 4) ''actual_result'' = Some (PyInt 1)
     \<and> map_of (pr_feature_rows fixture_strftime
         (fetch_files_changed fixture_db (map pr_link [fixture_pr]))
         (fetch_test_runs fixture_db (map pr_link [fixture_pr])) Map.empty Map.empty fixture_pr
         ! 4) ''num_files_changed'' = Some (PyInt 3)"
    by (simp add: fixture_file_changes fixture_second_test_run)
  from mem len row total show ?thesis by simp
qed

subsection \<open>Checkpoint Resolver\<close>


lemma checkpoint_dates_list:
  "checkpoint_dates db repo
     = set (map date_of_checkpoint (filter (\<lambda>r. cp_repo_name r = repo) (checkpoint_details db)))"
  by (auto simp: checkpoint_dates_def)

lemma latest_checkpoint_Max:
  "latest_checkpoint db repo
     = (if checkpoint_dates db repo = {} then None else Some (Max (checkpoint_dates db repo)))"
proof -
  have "set (map date_of_checkpoint (filter (\<lambda>r. cp_repo_name r = repo) (checkpoint_details db)))
      = checkpoint_dates db repo"
    by (auto simp: checkpoint_dates_def)
  moreover have "map date_of_checkpoint (filter (\<lambda>r. cp_repo_name r = repo) (checkpoint_details db)) = []
      \<longleftrightarrow> checkpoint_dates db repo = {}"
    by (auto simp: checkpoint_dates_def filter_empty_conv)
  ultimately show ?thesis
    by (simp add: latest_checkpoint_def Let_def del: set_map set_filter)
qed

text \<open>
  Claim C4. For a repository with a recorded checkpoint, the resolved checkpoint is the
  latest checkpoint date, the pull requests fetched are those of the repository dated on
  or after that date minus 28 days, and no fetched pull request is dated strictly before
  that bound. For a repository with no checkpoint the fetch has no bound on the date.
\<close>

theorem checkpoint_resolver_window:
  "(if checkpoint_dates db repo \<noteq> {}
    then latest_checkpoint db repo = Some (Max (checkpoint_dates db repo))
      \<and> fetch_pull_requests db repo (latest_checkpoint db repo)
          = filter (\<lambda>pr. repo_name pr = repo
                \<and> date_of_pr pr \<ge> Max (checkpoint_dates db repo) - timedelta_days 28)
              (repo_pr_details db)
      \<and> (\<forall>pr \<in> set (fetch_pull_requests db repo (latest_checkpoint db repo)).
            \<not> date_of_pr pr < Max (checkpoint_dates db repo) - timedelta_days 28)
    else latest_checkpoint db repo = None
      \<and> fetch_pull_requests db repo (latest_checkpoint db repo)
          = filter (\<lambda>pr. repo_name pr = repo) (repo_pr_details db))
   \<and> timedelta_days 28 = 28 * (24 * 60 * 60 * 1000000)"
  by (auto simp: latest_checkpoint_Max fetch_pull_requests_def Let_def timedelta_days_def)

lemma fixture_checkpoint_dates:
  "checkpoint_dates fixture_db ''repo'' = {timedelta_days 90, timedelta_days 100}"
  by (simp add: checkpoint_dates_list fixture_db_def)

theorem checkpoint_resolver_window_witness:
  "checkpoint_dates fixture_db ''repo'' \<noteq> {}
   \<and> latest_checkpoint fixture_db ''repo'' = Some (timedelta_days 100)
   \<and> fetch_pull_requests fixture_db ''repo'' (latest_checkpoint fixture_db ''repo'') = [fixture_pr]
   \<and> date_of_pr fixture_old_pr < timedelta_days 100 - timedelta_days 28"
proof -
  have ne: "checkpoint_dates fixture_db ''repo'' \<noteq> {}"
    by (simp add: fixture_checkpoint_dates)
  have mx: "Max (checkpoint_dates fixture_db ''repo'') = timedelta_days 100"
    by (simp add: fixture_checkpoint_dates timedelta_days_def)
  have flt: "filter (\<lambda>pr. repo_name pr = ''repo''
                \<and> date_of_pr pr \<ge> timedelta_days 100 - timedelta_days 28)
              (repo_pr_details fixture_db) = [fixture_pr]"
    by (simp add: fixture_db_def fixture_pr_def fixture_old_pr_def timedelta_days_def)
  have old: "date_of_pr fixture_old_pr < timedelta_days 100 - timedelta_days 28"
    by (simp add: fixture_old_pr_def timedelta_days_def)
  note inst = checkpoint_resolver_window [of fixture_db "''repo''", THEN conjunct1,
      unfolded if_P [OF ne] mx flt]
  from inst ne old show ?thesis by blast
qed


lemma process_data_for_repo_returned:
  "returned (process_data_for_repo strftime timestamp db repo cp)
     = (if fetch_pull_requests db repo cp = [] then None
        else Some (''csv/'' @ repo @ ''_'' @ timestamp @ ''.csv''))"
  by (simp add: process_data_for_repo_def Let_def)

lemma process_data_for_repo_written:
  "written (process_data_for_repo strftime timestamp db repo cp)
     = (if fetch_pull_requests db repo cp = []
           \<or> collect_feature_data strftime db (fetch_pull_requests db repo cp) = []
        then None
        else Some (''csv/'' @ repo @ ''_'' @ timestamp @ ''.csv'',
               \<lparr>fieldnames =
                  map fst (hd (collect_feature_data strftime db (fetch_pull_requests db repo cp))),
                csv_rows = collect_feature_data strftime db (fetch_pull_requests db repo cp)\<rparr>))"
  by (simp add: process_data_for_repo_def Let_def split: list.split)

lemma collect_feature_data_keys:
  assumes "row \<in> set (collect_feature_data strftime db prs)"
  shows "map fst row = dataset_columns"
proof -
  from collect_feature_data_rows [OF assms]
  obtain pr da n t f where "row = feature_row strftime pr da n t f" by blast
  then show ?thesis by (simp add: feature_row_keys)
qed

subsection \<open>Dataset file\<close>

text \<open>
  Claim C9. Every dataset file that a pass writes has as its header the 16 columns
  \<open>test_case_file_path\<close>, \<open>test_case_name\<close>, \<open>actual_result\<close>, \<open>failures_7_days\<close>,
  \<open>failures_14_days\<close>, \<open>failures_28_days\<close>, \<open>file_name\<close>, \<open>file_extension\<close>,
  \<open>changes_3_days\<close>, \<open>changes_14_days\<close>, \<open>distinct_author\<close>, \<open>common_tokens\<close>,
  \<open>minimal_distance\<close>, \<open>num_files_changed\<close>, \<open>date_of_pr\<close>, \<open>pr_link\<close>, in this
  order; the file has at least one row, and every row has exactly these keys in this order.
\<close>

theorem dataset_header_columns:
  assumes "written (process_data_for_repo strftime timestamp db repo checkpoint_date)
             = Some (name, file)"
  shows "fieldnames file = dataset_columns
    \<and> csv_rows file \<noteq> []
    \<and> (\<forall>row \<in> set (csv_rows file). map fst row = dataset_columns)"
proof -
  let ?rows = "collect_feature_data strftime db (fetch_pull_requests db repo checkpoint_date)"
  from assms have ne: "?rows \<noteq> []"
    and file_eq: "file = \<lparr>fieldnames = map fst (hd ?rows), csv_rows = ?rows\<rparr>"
    by (simp_all add: process_data_for_repo_written split: if_splits)
  from ne have "hd ?rows \<in> set ?rows" by simp
  then have "map fst (hd ?rows) = dataset_columns" by (rule collect_feature_data_keys)
  with ne file_eq show ?thesis by (simp add: collect_feature_data_keys)
qed

lemma fixture_rows:
  "length (collect_feature_data fixture_strftime fixture_db [fixture_pr]) = 6"
  by (simp add: length_collect_feature_data fixture_test_runs fixture_file_changes)

theorem dataset_header_columns_witness:
  "written (process_data_for_repo fixture_strftime ''20240101000000'' fixture_db ''repo''
      (Some (timedelta_days 100))) \<noteq> None
   \<and> fieldnames (snd (the (written (process_data_for_repo fixture_strftime ''20240101000000''
      fixture_db ''repo'' (Some (timedelta_days 100)))))) = dataset_columns
   \<and> length (csv_rows (snd (the (written (process_data_for_repo fixture_strftime
      ''20240101000000'' fixture_db ''repo'' (Some (timedelta_days 100))))))) = 6"
proof -
  let ?w = "written (process_data_for_repo fixture_strftime ''20240101000000'' fixture_db
      ''repo'' (Some (timedelta_days 100)))"
  have ne: "collect_feature_data fixture_strftime fixture_db [fixture_pr] \<noteq> []"
    using fixture_rows by auto
  then have w: "?w = Some (''csv/repo_20240101000000.csv'',
      \<lparr>fieldnames = map fst (hd (collect_feature_data fixture_strftime fixture_db [fixture_pr])),
       csv_rows = collect_feature_data fixture_strftime fixture_db [fixture_pr]\<rparr>)"
    by (simp add: process_data_for_repo_written fixture_fetch)
  from dataset_header_columns [OF w] w fixture_rows show ?thesis by simp
qed

lemma fixture_no_tests_fetch:
  "fetch_pull_requests fixture_db_no_tests ''repo'' (latest_checkpoint fixture_db_no_tests ''repo'')
     = [fixture_pr]"
proof -
  have "checkpoint_dates fixture_db_no_tests ''repo'' = {timedelta_days 90, timedelta_days 100}"
    by (simp add: checkpoint_dates_list fixture_db_no_tests_def fixture_db_def)
  then have "latest_checkpoint fixture_db_no_tests ''repo'' = Some (timedelta_days 100)"
    by (simp add: latest_checkpoint_Max timedelta_days_def)
  then show ?thesis
    by (simp add: fetch_pull_requests_def fixture_db_no_tests_def fixture_db_def fixture_pr_def
        fixture_old_pr_def timedelta_days_def)
qed

lemma fixture_no_tests_rows:
  "collect_feature_data fixture_strftime fixture_db_no_tests [fixture_pr] = []"
proof -
  have "length (collect_feature_data fixture_strftime fixture_db_no_tests [fixture_pr]) = 0"
    by (simp add: length_collect_feature_data test_runs_of_def fixture_db_no_tests_def)
  then show ?thesis by simp
qed

text \<open>
  Claim C5 does not hold of the code. A pass over a repository that has a pull request
  but no (test run, file change) pair writes no file, yet it returns the file name it
  would have written, and \<open>main\<close> calls the trainer with it; only a repository with no
  pull request in the window returns \<open>None\<close>. At the fixture without test runs: no
  file is written, a path is returned, and the trainer is called.
\<close>

theorem no_rows_still_hands_off:
  "written (outcome_pass (main_repo fixture_strftime ''20240101000000'' fixture_db_no_tests ''repo''))
     = None
   \<and> returned (outcome_pass (main_repo fixture_strftime ''20240101000000'' fixture_db_no_tests ''repo''))
     = Some ''csv/repo_20240101000000.csv''
   \<and> trainer_invoked (main_repo fixture_strftime ''20240101000000'' fixture_db_no_tests ''repo'')"
  by (simp add: main_repo_def Let_def process_data_for_repo_written
      process_data_for_repo_returned fixture_no_tests_fetch fixture_no_tests_rows)

end
